theory Spec2Isabelle
  imports Complex_Main "HOL-Library.Word"
begin

section \<open>Packets and enumerations\<close>

text \<open>
  The flight software routes \<open>PacketComm\<close> packets between the main loop
  (\<open>main.cpp\<close>) and the channel threads. Only \<open>main.cpp\<close> and
  \<open>rpi_channel.cpp\<close> are modelled here; everything they call from other
  translation units is either modelled from the specification (and marked so) or taken
  as a parameter.
\<close>

type_synonym byte = "8 word"

text \<open>
  \<open>PacketComm::TypeId\<close> is a scoped enumeration that the sources only use
  symbolically (as \<open>case\<close> labels and in assignments), so it is a datatype. The
  enumerators named in the two source files are listed; every other enumerator is
  \<open>TypeId_other\<close>.
\<close>

datatype TypeId =
    CommandObcPing
  | CommandObcHalt
  | CommandObcSendBeacon
  | CommandEpsCommunicate
  | CommandEpsSwitchName
  | CommandEpsSwitchStatus
  | DataObcPong
  | DataEpsResponse
  | TypeId_other nat

datatype Channel_ID = RFM23_CHANNEL | PDU_CHANNEL | RPI_CHANNEL | Channel_other nat

text \<open>
  The header fields and payload of a packet that the sources read or write:
  \<open>packet.header.type\<close>, \<open>.nodeorig\<close>, \<open>.nodedest\<close>, \<open>.chanout\<close>
  and \<open>packet.data\<close> (a \<open>vector<uint8_t>\<close>).
\<close>

record PacketComm =
  type :: TypeId
  nodeorig :: byte
  nodedest :: byte
  chanout :: Channel_ID
  data :: "byte list"

text \<open>
  The enumerators that the sources cast to \<open>uint8_t\<close> and compare with header or
  payload bytes. Their numeric values are declared outside the source files at hand, so
  they are a parameter of the model.
\<close>

record enum_values =
  GROUND_NODE_ID :: byte
  RPI_NODE_ID :: byte
  TEENSY_NODE_ID :: byte
  PDU_SW_RPI :: byte
  PDU_SW_All :: byte

text \<open>
  The router compares \<open>nodedest\<close> with the three node ids in turn, so its branches are
  the ones the source names only when the ids are pairwise different, as enumerators of
  distinct nodes are.
\<close>

definition distinct_nodes :: "enum_values \<Rightarrow> bool" where
  "distinct_nodes K =
     distinct [GROUND_NODE_ID K, RPI_NODE_ID K, TEENSY_NODE_ID K]"

section \<open>State, environment and observable events\<close>

datatype event =
    Delay nat
  | Serial2_write PacketComm
  | DigitalWrite_RPI_ENABLE bool
  | AddThread_rpi_channel int
  | BeaconDevices

type_synonym thread_struct = "int \<times> Channel_ID"

text \<open>
  The global variables of the two files. \<open>packet\<close> is the file-local packet of
  \<open>main.cpp\<close>, \<open>rpi_packet\<close> the one of namespace \<open>Channels::RPI\<close>.
  \<open>RPI_ENABLE\<close> is the level of the output pin of that name (\<open>True\<close> is
  HIGH). \<open>millis\<close> is the 32-bit millisecond clock and \<open>deploymentbeacon\<close> the
  clock value stored by the \<open>elapsedMillis\<close> timer of that name. \<open>trace\<close>
  records, in order, the externally visible actions.
\<close>

record fsw =
  main_queue :: "PacketComm list"
  rfm23_queue :: "PacketComm list"
  pdu_queue :: "PacketComm list"
  rpi_queue :: "PacketComm list"
  thread_list :: "thread_struct list"
  packet :: PacketComm
  rpi_packet :: PacketComm
  kill_channel :: bool
  RPI_ENABLE :: bool
  deploymentmode :: bool
  millis :: "32 word"
  deploymentbeacon :: "32 word"
  trace :: "event list"

text \<open>
  What a call reads from outside the program: the level of the input pin
  \<open>UART6_RX\<close>, the bus voltage reported by the battery-board current sensor (a finite
  \<open>float\<close>, whose comparison with \<open>7.0\<close> is exact, hence a real number here), the
  value returned by \<open>threads.addThread\<close>, and whether the scheduler accepts a request
  to kill a thread.
\<close>

record env =
  UART6_RX :: bool
  getBusVoltage_V :: real
  addThread_result :: int
  kill_accepted :: bool

datatype fault = OutOfRange

text \<open>
  \<open>packet.data[i]\<close> is \<open>std::vector::operator[]\<close>: reading past the end is
  undefined behaviour, which the model reports as a fault.
\<close>

definition data_at :: "byte list \<Rightarrow> nat \<Rightarrow> fault + byte" where
  "data_at d i = (if i < length d then Inr (d ! i) else Inl OutOfRange)"

section \<open>Queue and routing helpers\<close>

text \<open>
  Modelled from the spec: \<open>PushQueue\<close> is defined in the channels library, not in the
  source files at hand. The specification says that push appends under the lock and that
  the queue never drops or duplicates a packet.
\<close>

definition PushQueue :: "PacketComm \<Rightarrow> PacketComm list \<Rightarrow> PacketComm list" where
  "PushQueue p q = q @ [p]"

text \<open>
  Modelled from the spec: \<open>PullQueue\<close> is defined in the channels library. It removes
  and returns the oldest packet, or signals that the queue is empty.
\<close>

definition PullQueue :: "PacketComm list \<Rightarrow> (PacketComm \<times> PacketComm list) option" where
  "PullQueue q = (case q of [] \<Rightarrow> None | p # rest \<Rightarrow> Some (p, rest))"

text \<open>
  Modelled from the spec: the three \<open>route_packet_to_...\<close> helpers are defined in the
  channels library; each enqueues the packet onto the outbound queue of its channel.
\<close>

definition route_packet_to_rfm23 :: "PacketComm \<Rightarrow> fsw \<Rightarrow> fsw" where
  "route_packet_to_rfm23 p s = s\<lparr>rfm23_queue := PushQueue p (rfm23_queue s)\<rparr>"

definition route_packet_to_pdu :: "PacketComm \<Rightarrow> fsw \<Rightarrow> fsw" where
  "route_packet_to_pdu p s = s\<lparr>pdu_queue := PushQueue p (pdu_queue s)\<rparr>"

definition route_packet_to_rpi :: "PacketComm \<Rightarrow> fsw \<Rightarrow> fsw" where
  "route_packet_to_rpi p s = s\<lparr>rpi_queue := PushQueue p (rpi_queue s)\<rparr>"

text \<open>
  Modelled from the spec: \<open>kill_thread\<close> is defined in the channels library. It asks
  the scheduler to terminate the thread registered for the channel and removes that entry
  from the registry; it reports failure when there is no such entry or the scheduler
  refuses.
\<close>

fun remove_channel :: "Channel_ID \<Rightarrow> thread_struct list \<Rightarrow> thread_struct list" where
  "remove_channel c [] = []"
| "remove_channel c (t # ts) = (if snd t = c then ts else t # remove_channel c ts)"

definition kill_thread :: "env \<Rightarrow> Channel_ID \<Rightarrow> thread_struct list \<Rightarrow> thread_struct list \<times> bool" where
  "kill_thread e c ts =
     (if c \<in> set (map snd ts) \<and> kill_accepted e then (remove_channel c ts, True)
      else (ts, False))"

text \<open>
  \<open>threads.delay(n)\<close>: the calling thread sleeps \<open>n\<close> milliseconds. The model is
  sequential: the clock advances by \<open>n\<close> and no other thread's effect is interleaved.
\<close>

definition threads_delay :: "nat \<Rightarrow> fsw \<Rightarrow> fsw" where
  "threads_delay n s = s\<lparr>millis := millis s + of_nat n, trace := trace s @ [Delay n]\<rparr>"

definition digitalWrite_RPI_ENABLE :: "bool \<Rightarrow> fsw \<Rightarrow> fsw" where
  "digitalWrite_RPI_ENABLE v s =
     s\<lparr>RPI_ENABLE := v, trace := trace s @ [DigitalWrite_RPI_ENABLE v]\<rparr>"

text \<open>\<open>digitalRead(RPI_ENABLE)\<close> as the byte pushed onto a payload: HIGH is 1, LOW is 0.\<close>

definition digitalRead_RPI_ENABLE :: "fsw \<Rightarrow> byte" where
  "digitalRead_RPI_ENABLE s = (if RPI_ENABLE s then 1 else 0)"

section \<open>The main loop: \<open>main.cpp\<close>\<close>

definition readInterval :: "32 word" where
  "readInterval = 20000"

text \<open>Reading and resetting the \<open>elapsedMillis\<close> timer \<open>deploymentbeacon\<close>.\<close>

definition deploymentbeacon_elapsed :: "fsw \<Rightarrow> 32 word" where
  "deploymentbeacon_elapsed s = millis s - deploymentbeacon s"

definition deploymentbeacon_reset :: "fsw \<Rightarrow> fsw" where
  "deploymentbeacon_reset s = s\<lparr>deploymentbeacon := millis s\<rparr>"

text \<open>
  \<open>beacon_artemis_devices\<close> polls the sensor drivers that the build enables; the
  drivers are external, so the poll is one event of the trace.
\<close>

definition beacon_artemis_devices :: "fsw \<Rightarrow> fsw" where
  "beacon_artemis_devices s = s\<lparr>trace := trace s @ [BeaconDevices]\<rparr>"

definition route_packet_to_ground :: "fsw \<Rightarrow> fsw" where
  "route_packet_to_ground s =
     (case chanout (packet s) of
        RFM23_CHANNEL \<Rightarrow> route_packet_to_rfm23 (packet s) s
      | _ \<Rightarrow> s)"

definition update_pdu_switches :: "enum_values \<Rightarrow> fsw \<Rightarrow> fsw" where
  "update_pdu_switches K s =
     (let s1 = s\<lparr>packet := (packet s)\<lparr>type := CommandEpsSwitchStatus\<rparr>\<rparr>;
          s2 = s1\<lparr>packet := (packet s1)\<lparr>nodeorig := GROUND_NODE_ID K\<rparr>\<rparr>;
          s3 = s2\<lparr>packet := (packet s2)\<lparr>nodedest := TEENSY_NODE_ID K\<rparr>\<rparr>;
          s4 = s3\<lparr>packet := (packet s3)\<lparr>data := []\<rparr>\<rparr>;
          s5 = s4\<lparr>packet := (packet s4)\<lparr>data := data (packet s4) @ [PDU_SW_All K]\<rparr>\<rparr>
      in route_packet_to_pdu (packet s5) s5)"

definition enable_rpi :: "env \<Rightarrow> fsw \<Rightarrow> fsw" where
  "enable_rpi e s =
     (let s1 = digitalWrite_RPI_ENABLE True s;
          thread_id = addThread_result e;
          s2 = s1\<lparr>trace := trace s1 @ [AddThread_rpi_channel thread_id]\<rparr>
      in if thread_id = - 1 then s2
         else s2\<lparr>thread_list := thread_list s2 @ [(thread_id, RPI_CHANNEL)]\<rparr>)"

definition ensure_rpi_is_powered :: "enum_values \<Rightarrow> env \<Rightarrow> fsw \<Rightarrow> fsw" where
  "ensure_rpi_is_powered K e s =
     (if \<not> UART6_RX e then
        (let curr_V = getBusVoltage_V e
         in if curr_V \<ge> 7.0 then threads_delay 5000 (enable_rpi e s)
            else update_pdu_switches K s)
      else s)"

text \<open>The bytes of the C string \<open>"Pong"\<close>, pushed one by one.\<close>

definition byte_of_char :: "char \<Rightarrow> byte" where
  "byte_of_char c = of_nat (of_char c)"

definition send_pong_reply :: "enum_values \<Rightarrow> fsw \<Rightarrow> fsw" where
  "send_pong_reply K s =
     (let s1 = s\<lparr>packet := (packet s)\<lparr>nodedest := nodeorig (packet s)\<rparr>\<rparr>;
          s2 = s1\<lparr>packet := (packet s1)\<lparr>nodeorig := TEENSY_NODE_ID K\<rparr>\<rparr>;
          s3 = s2\<lparr>packet := (packet s2)\<lparr>type := DataObcPong\<rparr>\<rparr>;
          s4 = s3\<lparr>packet := (packet s3)\<lparr>data := []\<rparr>\<rparr>;
          s5 = s4\<lparr>packet := (packet s4)
                 \<lparr>data := foldl (\<lambda>d c. d @ [byte_of_char c]) (data (packet s4)) ''Pong''\<rparr>\<rparr>
      in route_packet_to_ground s5)"

text \<open>\<open>std::vector::resize(n)\<close>: truncate, or pad with zero bytes.\<close>

definition resize :: "nat \<Rightarrow> byte list \<Rightarrow> byte list" where
  "resize n d = take n d @ replicate (n - length d) 0"

definition report_rpi_enabled :: "enum_values \<Rightarrow> fsw \<Rightarrow> fsw" where
  "report_rpi_enabled K s =
     (let s1 = s\<lparr>packet := (packet s)\<lparr>data := resize 1 (data (packet s))\<rparr>\<rparr>;
          s2 = s1\<lparr>packet := (packet s1)
                 \<lparr>data := data (packet s1) @ [digitalRead_RPI_ENABLE s1]\<rparr>\<rparr>;
          s3 = s2\<lparr>packet := (packet s2)\<lparr>type := DataEpsResponse\<rparr>\<rparr>;
          s4 = s3\<lparr>packet := (packet s3)\<lparr>nodedest := nodeorig (packet s3)\<rparr>\<rparr>;
          s5 = s4\<lparr>packet := (packet s4)\<lparr>nodeorig := TEENSY_NODE_ID K\<rparr>\<rparr>
      in route_packet_to_rfm23 (packet s5) s5)"

definition beacon_if_deployed :: "enum_values \<Rightarrow> fsw \<Rightarrow> fsw" where
  "beacon_if_deployed K s =
     (if deploymentmode s then
        (if deploymentbeacon_elapsed s \<ge> readInterval then
           deploymentbeacon_reset (update_pdu_switches K (beacon_artemis_devices s))
         else s)
      else s)"

definition route_packets :: "enum_values \<Rightarrow> env \<Rightarrow> fsw \<Rightarrow> fault + fsw" where
  "route_packets K e s =
     (case PullQueue (main_queue s) of
        None \<Rightarrow> Inr s
      | Some (p, rest) \<Rightarrow>
          (let s0 = s\<lparr>packet := p, main_queue := rest\<rparr>
           in if nodedest (packet s0) = GROUND_NODE_ID K then Inr (route_packet_to_ground s0)
              else if nodedest (packet s0) = RPI_NODE_ID K then
                (let s1 = ensure_rpi_is_powered K e s0
                 in Inr (route_packet_to_rpi (packet s1) s1))
              else if nodedest (packet s0) = TEENSY_NODE_ID K then
                (case type (packet s0) of
                   CommandObcPing \<Rightarrow> Inr (send_pong_reply K s0)
                 | CommandEpsCommunicate \<Rightarrow> Inr (route_packet_to_pdu (packet s0) s0)
                 | CommandEpsSwitchName \<Rightarrow>
                     (case data_at (data (packet s0)) 0 of
                        Inl f \<Rightarrow> Inl f
                      | Inr switchid \<Rightarrow>
                          if switchid = PDU_SW_RPI K then
                            (case data_at (data (packet s0)) 1 of
                               Inl f \<Rightarrow> Inl f
                             | Inr d1 \<Rightarrow>
                                 if d1 = 0 then Inr (route_packet_to_rpi (packet s0) s0)
                                 else
                                   (case data_at (data (packet s0)) 2 of
                                      Inl f \<Rightarrow> Inl f
                                    | Inr d2 \<Rightarrow>
                                        if d2 = 1
                                        then Inr (threads_delay 5000 (enable_rpi e s0))
                                        else Inr (ensure_rpi_is_powered K e s0)))
                          else Inr (route_packet_to_pdu (packet s0) s0))
                 | CommandEpsSwitchStatus \<Rightarrow>
                     (case data_at (data (packet s0)) 0 of
                        Inl f \<Rightarrow> Inl f
                      | Inr switchid \<Rightarrow>
                          if switchid = PDU_SW_RPI K then Inr (report_rpi_enabled K s0)
                          else Inr (route_packet_to_pdu (packet s0) s0))
                 | CommandObcSendBeacon \<Rightarrow>
                     Inr (update_pdu_switches K (beacon_artemis_devices s0))
                 | _ \<Rightarrow> Inr s0)
              else Inr s0))"

text \<open>
  One iteration of \<open>loop()\<close> in \<open>main.cpp\<close>. \<open>run_tests\<close> is empty unless the
  build defines \<open>TESTS\<close>; \<open>print_free_memory\<close> and \<open>gps.update\<close> touch nothing
  modelled here.
\<close>

definition main_loop :: "enum_values \<Rightarrow> env \<Rightarrow> fsw \<Rightarrow> fault + fsw" where
  "main_loop K e s =
     (case route_packets K e (beacon_if_deployed K s) of
        Inl f \<Rightarrow> Inl f
      | Inr s1 \<Rightarrow> Inr (threads_delay 100 s1))"

text \<open>Several iterations of the main loop, each with its own environment.\<close>

fun main_loops :: "enum_values \<Rightarrow> env list \<Rightarrow> fsw \<Rightarrow> fault + fsw" where
  "main_loops K [] s = Inr s"
| "main_loops K (e # es) s =
     (case main_loop K e s of Inl f \<Rightarrow> Inl f | Inr s1 \<Rightarrow> main_loops K es s1)"

section \<open>The companion-computer channel: \<open>rpi_channel.cpp\<close>\<close>

text \<open>
  \<open>send_to_pi\<close> frames \<open>rpi_packet\<close> and writes the bytes to \<open>Serial2\<close>. The
  framing is external and a failed write is only logged, so a transmission is one event
  carrying the packet.
\<close>

definition send_to_pi :: "fsw \<Rightarrow> fsw" where
  "send_to_pi s = s\<lparr>trace := trace s @ [Serial2_write (rpi_packet s)]\<rparr>"

text \<open>\<open>while (!rpi_queue.empty()) rpi_queue.pop_front();\<close>\<close>

fun empty_queue :: "PacketComm list \<Rightarrow> PacketComm list" where
  "empty_queue [] = []"
| "empty_queue (p # q) = empty_queue q"

definition shut_down_pi :: "env \<Rightarrow> fsw \<Rightarrow> fsw" where
  "shut_down_pi e s =
     (let s1 = s\<lparr>rpi_packet := (rpi_packet s)\<lparr>type := CommandObcHalt\<rparr>\<rparr>;
          s2 = send_to_pi s1;
          s3 = threads_delay 20000 s2;
          s4 = digitalWrite_RPI_ENABLE False s3;
          s5 = s4\<lparr>rpi_queue := empty_queue (rpi_queue s4)\<rparr>;
          s6 = s5\<lparr>thread_list := fst (kill_thread e RPI_CHANNEL (thread_list s5))\<rparr>
      in s6\<lparr>kill_channel := True\<rparr>)"

definition handle_queue :: "enum_values \<Rightarrow> env \<Rightarrow> fsw \<Rightarrow> fault + fsw" where
  "handle_queue K e s =
     (case PullQueue (rpi_queue s) of
        None \<Rightarrow> Inr s
      | Some (p, rest) \<Rightarrow>
          (let s0 = s\<lparr>rpi_packet := p, rpi_queue := rest\<rparr>
           in case type (rpi_packet s0) of
                CommandEpsSwitchName \<Rightarrow>
                  (case data_at (data (rpi_packet s0)) 0 of
                     Inl f \<Rightarrow> Inl f
                   | Inr d0 \<Rightarrow>
                       if d0 = PDU_SW_RPI K then
                         (case data_at (data (rpi_packet s0)) 1 of
                            Inl f \<Rightarrow> Inl f
                          | Inr d1 \<Rightarrow>
                              if d1 = 0 then Inr (shut_down_pi e s0) else Inr s0)
                       else Inr s0)
              | _ \<Rightarrow> Inr (send_to_pi s0)))"

text \<open>\<open>receive_from_pi\<close> has an empty body.\<close>

definition receive_from_pi :: "fsw \<Rightarrow> fsw" where
  "receive_from_pi s = s"

text \<open>
  One pass through the body of \<open>while (true)\<close> in the channel's \<open>loop\<close>, up to
  the test of \<open>kill_channel\<close>.
\<close>

definition rpi_loop_body :: "enum_values \<Rightarrow> env \<Rightarrow> fsw \<Rightarrow> fault + fsw" where
  "rpi_loop_body K e s =
     (case handle_queue K e s of
        Inl f \<Rightarrow> Inl f
      | Inr s1 \<Rightarrow> Inr (threads_delay 100 (receive_from_pi s1)))"

text \<open>
  The channel's \<open>loop\<close>. It need not return: \<open>None\<close> is a loop that runs forever.
\<close>

partial_function (option) rpi_loop :: "enum_values \<Rightarrow> env \<Rightarrow> fsw \<Rightarrow> (fault + fsw) option" where
  "rpi_loop K e s =
     (case rpi_loop_body K e s of
        Inl f \<Rightarrow> Some (Inl f)
      | Inr s1 \<Rightarrow> if kill_channel s1 then Some (Inr s1) else rpi_loop K e s1)"

section \<open>Example values\<close>

text \<open>
  One choice of the enumerators' values, an environment in which the companion computer
  is silent and the battery is charged, one in which the battery is low, and the state
  after \<open>setup()\<close>: the radio and power-unit threads registered, all queues empty.
\<close>

definition example_values :: enum_values where
  "example_values =
     \<lparr>GROUND_NODE_ID = 1, RPI_NODE_ID = 3, TEENSY_NODE_ID = 2,
      PDU_SW_RPI = 16, PDU_SW_All = 1\<rparr>"

definition env_charged :: env where
  "env_charged =
     \<lparr>UART6_RX = False, getBusVoltage_V = 8, addThread_result = 3, kill_accepted = True\<rparr>"

definition env_low :: env where
  "env_low =
     \<lparr>UART6_RX = False, getBusVoltage_V = 5, addThread_result = 3, kill_accepted = False\<rparr>"

definition example_packet :: "TypeId \<Rightarrow> byte \<Rightarrow> byte list \<Rightarrow> PacketComm" where
  "example_packet t dest d =
     \<lparr>type = t, nodeorig = 1, nodedest = dest, chanout = RFM23_CHANNEL, data = d\<rparr>"

definition boot_state :: fsw where
  "boot_state =
     \<lparr>main_queue = [], rfm23_queue = [], pdu_queue = [], rpi_queue = [],
      thread_list = [(1, RFM23_CHANNEL), (2, PDU_CHANNEL)],
      packet = example_packet (TypeId_other 0) 0 [],
      rpi_packet = example_packet (TypeId_other 0) 0 [],
      kill_channel = False, RPI_ENABLE = False, deploymentmode = False,
      millis = 0, deploymentbeacon = 0, trace = []\<rparr>"

text \<open>
  The state while the companion computer runs (its thread registered, its enable pin
  HIGH), and three packets waiting for it.
\<close>

definition pi_running :: fsw where
  "pi_running =
     boot_state\<lparr>thread_list := [(1, RFM23_CHANNEL), (2, PDU_CHANNEL), (3, RPI_CHANNEL)],
                RPI_ENABLE := True\<rparr>"

definition three_packets :: "PacketComm list" where
  "three_packets =
     [example_packet CommandObcPing 3 [], example_packet (TypeId_other 5) 3 [1],
      example_packet (TypeId_other 6) 3 [2, 3]]"

section \<open>Shared lemmas\<close>

lemmas route_defs =
  PushQueue_def PullQueue_def route_packet_to_rfm23_def route_packet_to_pdu_def
  route_packet_to_rpi_def route_packet_to_ground_def

lemma distinct_nodesD:
  assumes "distinct_nodes K"
  shows "TEENSY_NODE_ID K \<noteq> GROUND_NODE_ID K" "TEENSY_NODE_ID K \<noteq> RPI_NODE_ID K"
    "GROUND_NODE_ID K \<noteq> TEENSY_NODE_ID K" "RPI_NODE_ID K \<noteq> TEENSY_NODE_ID K"
    "GROUND_NODE_ID K \<noteq> RPI_NODE_ID K" "RPI_NODE_ID K \<noteq> GROUND_NODE_ID K"
  using assms by (auto simp: distinct_nodes_def)

lemma distinct_example_values: "distinct_nodes example_values"
  by (simp add: distinct_nodes_def example_values_def)

lemma send_pong_reply_eq:
  "send_pong_reply K s =
     (let pong = (packet s)\<lparr>type := DataObcPong, nodeorig := TEENSY_NODE_ID K,
                   nodedest := nodeorig (packet s), data := [0x50, 0x6F, 0x6E, 0x67]\<rparr>
      in if chanout (packet s) = RFM23_CHANNEL
         then s\<lparr>packet := pong, rfm23_queue := rfm23_queue s @ [pong]\<rparr>
         else s\<lparr>packet := pong\<rparr>)"
  by (simp add: send_pong_reply_def route_defs Let_def byte_of_char_def split: Channel_ID.splits)

section \<open>Ping and pong\<close>

text \<open>
  Claim C1. When the packet \<open>P\<close> at the head of the central queue is addressed to the
  flight computer and is a ping, \<open>route_packets\<close> returns without fault, and the only
  changes to the state are these: \<open>P\<close> is popped, the router's packet variable holds the
  reply (type pong, origin the flight computer, destination \<open>P\<close>'s origin, payload the
  four bytes of "Pong"), and the reply is appended once to the radio channel's queue
  when \<open>P.chanout\<close> selects the radio channel; for any other \<open>chanout\<close> no queue
  receives it.
\<close>

theorem ping_is_answered_by_pong:
  assumes "distinct_nodes K"
    and "main_queue s = P # rest"
    and "nodedest P = TEENSY_NODE_ID K"
    and "type P = CommandObcPing"
  shows "route_packets K e s =
     (let pong = P\<lparr>type := DataObcPong, nodeorig := TEENSY_NODE_ID K,
                   nodedest := nodeorig P, data := [0x50, 0x6F, 0x6E, 0x67]\<rparr>
      in Inr (if chanout P = RFM23_CHANNEL
              then s\<lparr>packet := pong, main_queue := rest,
                     rfm23_queue := rfm23_queue s @ [pong]\<rparr>
              else s\<lparr>packet := pong, main_queue := rest\<rparr>))"
  using assms
  by (simp add: route_packets_def PullQueue_def distinct_nodesD send_pong_reply_eq Let_def)

theorem ping_is_answered_by_pong_witness:
  "route_packets example_values env_charged
     (boot_state\<lparr>main_queue := [example_packet CommandObcPing 2 [7]]\<rparr>) =
   Inr (boot_state
     \<lparr>packet := \<lparr>type = DataObcPong, nodeorig = 2, nodedest = 1, chanout = RFM23_CHANNEL,
                  data = [0x50, 0x6F, 0x6E, 0x67]\<rparr>,
      rfm23_queue := [\<lparr>type = DataObcPong, nodeorig = 2, nodedest = 1,
                       chanout = RFM23_CHANNEL, data = [0x50, 0x6F, 0x6E, 0x67]\<rparr>]\<rparr>)"
proof -
  have h2: "main_queue (boot_state\<lparr>main_queue := [example_packet CommandObcPing 2 [7]]\<rparr>)
      = example_packet CommandObcPing 2 [7] # []"
    by simp
  have h3: "nodedest (example_packet CommandObcPing 2 [7]) = TEENSY_NODE_ID example_values"
    by (simp add: example_packet_def example_values_def)
  have h4: "type (example_packet CommandObcPing 2 [7]) = CommandObcPing"
    by (simp add: example_packet_def)
  show ?thesis
    using ping_is_answered_by_pong [OF distinct_example_values h2 h3 h4, of env_charged]
    by (simp add: example_packet_def example_values_def boot_state_def Let_def)
qed

section \<open>Switch commands and status queries for the companion computer\<close>

text \<open>
  Claim C3. A switch command addressed to the flight computer whose first payload byte
  is the companion computer's switch id and whose second byte (the argument) is 0 is
  appended unchanged to the companion-computer channel's queue. Nothing else changes
  beyond the pop into the router's packet variable: no pin is written, no thread is
  started, no other queue receives anything.
\<close>

theorem switch_command_arg_zero_is_forwarded:
  assumes "distinct_nodes K"
    and "main_queue s = P # rest"
    and "nodedest P = TEENSY_NODE_ID K"
    and "type P = CommandEpsSwitchName"
    and "2 \<le> length (data P)"
    and "data P ! 0 = PDU_SW_RPI K"
    and "data P ! 1 = 0"
  shows "route_packets K e s =
     Inr (s\<lparr>packet := P, main_queue := rest, rpi_queue := rpi_queue s @ [P]\<rparr>)"
proof -
  from assms(5) have "0 < length (data P)" and "Suc 0 < length (data P)"
    by arith+
  with assms show ?thesis
    by (simp add: route_packets_def data_at_def route_defs
        distinct_nodesD Let_def)
qed

theorem switch_command_arg_zero_is_forwarded_witness:
  "route_packets example_values env_charged
     (boot_state\<lparr>main_queue := [example_packet CommandEpsSwitchName 2 [16, 0]]\<rparr>) =
   Inr (boot_state\<lparr>packet := example_packet CommandEpsSwitchName 2 [16, 0],
                    rpi_queue := [example_packet CommandEpsSwitchName 2 [16, 0]]\<rparr>)"
proof -
  have h2: "main_queue (boot_state\<lparr>main_queue := [example_packet CommandEpsSwitchName 2 [16, 0]]\<rparr>)
      = example_packet CommandEpsSwitchName 2 [16, 0] # []"
    by simp
  have h3: "nodedest (example_packet CommandEpsSwitchName 2 [16, 0]) = TEENSY_NODE_ID example_values"
    by (simp add: example_packet_def example_values_def)
  have h4: "type (example_packet CommandEpsSwitchName 2 [16, 0]) = CommandEpsSwitchName"
    by (simp add: example_packet_def)
  have h5: "2 \<le> length (data (example_packet CommandEpsSwitchName 2 [16, 0]))"
    by (simp add: example_packet_def)
  have h6: "data (example_packet CommandEpsSwitchName 2 [16, 0]) ! 0 = PDU_SW_RPI example_values"
    by (simp add: example_packet_def example_values_def)
  have h7: "data (example_packet CommandEpsSwitchName 2 [16, 0]) ! 1 = 0"
    by (simp add: example_packet_def)
  show ?thesis
    using switch_command_arg_zero_is_forwarded
      [OF distinct_example_values h2 h3 h4 h5 h6 h7, of env_charged]
    by (simp add: boot_state_def)
qed

text \<open>
  \<open>report_rpi_enabled\<close> on a packet with a non-empty payload: the payload is cut to its
  first byte and the level of the enable pin is pushed behind it.
\<close>

lemma report_rpi_enabled_eq:
  assumes "data (packet s) \<noteq> []"
  shows "report_rpi_enabled K s =
     (let reply = (packet s)\<lparr>type := DataEpsResponse, nodeorig := TEENSY_NODE_ID K,
                     nodedest := nodeorig (packet s),
                     data := [data (packet s) ! 0, if RPI_ENABLE s then 1 else 0]\<rparr>
      in s\<lparr>packet := reply, rfm23_queue := rfm23_queue s @ [reply]\<rparr>)"
  using assms
  by (cases "data (packet s)")
     (simp_all add: report_rpi_enabled_def resize_def digitalRead_RPI_ENABLE_def route_defs Let_def)

text \<open>
  Claim C5. A switch-status query addressed to the flight computer whose first payload
  byte is the companion computer's switch id makes the router append one reply to the
  radio channel's queue: type power-unit data response, destination the query's origin,
  origin the flight computer, and a two-byte payload whose second byte is 1 when the
  enable pin is HIGH and 0 when it is LOW.
\<close>

theorem switch_status_reply_reports_enable_line:
  assumes "distinct_nodes K"
    and "main_queue s = P # rest"
    and "nodedest P = TEENSY_NODE_ID K"
    and "type P = CommandEpsSwitchStatus"
    and "data P \<noteq> []"
    and "data P ! 0 = PDU_SW_RPI K"
  shows "route_packets K e s =
     (let reply = P\<lparr>type := DataEpsResponse, nodeorig := TEENSY_NODE_ID K,
                     nodedest := nodeorig P,
                     data := [PDU_SW_RPI K, if RPI_ENABLE s then 1 else 0]\<rparr>
      in Inr (s\<lparr>packet := reply, main_queue := rest,
                rfm23_queue := rfm23_queue s @ [reply]\<rparr>))"
  using assms
  by (simp add: route_packets_def data_at_def PullQueue_def
      report_rpi_enabled_eq distinct_nodesD Let_def)

theorem switch_status_reply_reports_enable_line_witness:
  "route_packets example_values env_charged
     (boot_state\<lparr>main_queue := [example_packet CommandEpsSwitchStatus 2 [16]],
                 RPI_ENABLE := True\<rparr>) =
   Inr (boot_state
     \<lparr>rfm23_queue := [\<lparr>type = DataEpsResponse, nodeorig = 2, nodedest = 1,
                       chanout = RFM23_CHANNEL, data = [16, 1]\<rparr>],
      packet := \<lparr>type = DataEpsResponse, nodeorig = 2, nodedest = 1,
                  chanout = RFM23_CHANNEL, data = [16, 1]\<rparr>,
      RPI_ENABLE := True\<rparr>)"
proof -
  have h2: "main_queue (boot_state\<lparr>main_queue := [example_packet CommandEpsSwitchStatus 2 [16]],
                 RPI_ENABLE := True\<rparr>)
      = example_packet CommandEpsSwitchStatus 2 [16] # []"
    by simp
  have h3: "nodedest (example_packet CommandEpsSwitchStatus 2 [16]) = TEENSY_NODE_ID example_values"
    by (simp add: example_packet_def example_values_def)
  have h4: "type (example_packet CommandEpsSwitchStatus 2 [16]) = CommandEpsSwitchStatus"
    by (simp add: example_packet_def)
  have h5: "data (example_packet CommandEpsSwitchStatus 2 [16]) \<noteq> []"
    by (simp add: example_packet_def)
  have h6: "data (example_packet CommandEpsSwitchStatus 2 [16]) ! 0 = PDU_SW_RPI example_values"
    by (simp add: example_packet_def example_values_def)
  show ?thesis
    using switch_status_reply_reports_enable_line
      [OF distinct_example_values h2 h3 h4 h5 h6, of env_charged]
    by (simp add: boot_state_def example_packet_def example_values_def Let_def)
qed

section \<open>Power-unit status refresh\<close>

lemma update_pdu_switches_eq:
  "update_pdu_switches K s =
     (let refresh = (packet s)\<lparr>type := CommandEpsSwitchStatus,
                       nodeorig := GROUND_NODE_ID K, nodedest := TEENSY_NODE_ID K,
                       data := [PDU_SW_All K]\<rparr>
      in s\<lparr>packet := refresh, pdu_queue := pdu_queue s @ [refresh]\<rparr>)"
  by (simp add: update_pdu_switches_def route_defs Let_def)

text \<open>
  Claim C9. Each of the three internal triggers of a power-unit status refresh (a
  send-beacon command, a due deployment beacon, an ensure-powered call that finds the
  companion computer silent and the bus below 7.0 V) appends to the power-unit channel's
  queue the router's packet variable rewritten to a switch-status query with origin
  ground, destination flight computer and the one-byte payload "all switches".
\<close>

theorem pdu_refresh_claims_ground_origin:
  "(distinct_nodes K \<and> main_queue s = P # rest \<and> nodedest P = TEENSY_NODE_ID K \<and>
      type P = CommandObcSendBeacon \<longrightarrow>
      (\<exists>s'. route_packets K e s = Inr s' \<and>
         pdu_queue s' = pdu_queue s @
           [P\<lparr>type := CommandEpsSwitchStatus, nodeorig := GROUND_NODE_ID K,
              nodedest := TEENSY_NODE_ID K, data := [PDU_SW_All K]\<rparr>])) \<and>
   (deploymentmode s \<and> readInterval \<le> deploymentbeacon_elapsed s \<longrightarrow>
      pdu_queue (beacon_if_deployed K s) = pdu_queue s @
        [(packet s)\<lparr>type := CommandEpsSwitchStatus, nodeorig := GROUND_NODE_ID K,
           nodedest := TEENSY_NODE_ID K, data := [PDU_SW_All K]\<rparr>]) \<and>
   (\<not> UART6_RX e \<and> getBusVoltage_V e < 7 \<longrightarrow>
      pdu_queue (ensure_rpi_is_powered K e s) = pdu_queue s @
        [(packet s)\<lparr>type := CommandEpsSwitchStatus, nodeorig := GROUND_NODE_ID K,
           nodedest := TEENSY_NODE_ID K, data := [PDU_SW_All K]\<rparr>])"
proof (intro conjI impI)
  assume "distinct_nodes K \<and> main_queue s = P # rest \<and> nodedest P = TEENSY_NODE_ID K \<and>
      type P = CommandObcSendBeacon"
  then show "\<exists>s'. route_packets K e s = Inr s' \<and>
         pdu_queue s' = pdu_queue s @
           [P\<lparr>type := CommandEpsSwitchStatus, nodeorig := GROUND_NODE_ID K,
              nodedest := TEENSY_NODE_ID K, data := [PDU_SW_All K]\<rparr>]"
    by (simp add: route_packets_def PullQueue_def distinct_nodesD update_pdu_switches_eq
        beacon_artemis_devices_def Let_def)
next
  assume "deploymentmode s \<and> readInterval \<le> deploymentbeacon_elapsed s"
  then show "pdu_queue (beacon_if_deployed K s) = pdu_queue s @
        [(packet s)\<lparr>type := CommandEpsSwitchStatus, nodeorig := GROUND_NODE_ID K,
           nodedest := TEENSY_NODE_ID K, data := [PDU_SW_All K]\<rparr>]"
    by (simp add: beacon_if_deployed_def deploymentbeacon_reset_def update_pdu_switches_eq
        beacon_artemis_devices_def Let_def)
next
  assume "\<not> UART6_RX e \<and> getBusVoltage_V e < 7"
  then show "pdu_queue (ensure_rpi_is_powered K e s) = pdu_queue s @
        [(packet s)\<lparr>type := CommandEpsSwitchStatus, nodeorig := GROUND_NODE_ID K,
           nodedest := TEENSY_NODE_ID K, data := [PDU_SW_All K]\<rparr>]"
    by (simp add: ensure_rpi_is_powered_def update_pdu_switches_eq Let_def)
qed


theorem pdu_refresh_claims_ground_origin_witness:
  "(\<exists>s'. route_packets example_values env_low
           (boot_state\<lparr>main_queue := [example_packet CommandObcSendBeacon 2 []],
                       deploymentmode := True, millis := 20000\<rparr>) = Inr s' \<and>
         pdu_queue s' = [\<lparr>type = CommandEpsSwitchStatus, nodeorig = 1, nodedest = 2,
                           chanout = RFM23_CHANNEL, data = [1]\<rparr>]) \<and>
   pdu_queue (beacon_if_deployed example_values
           (boot_state\<lparr>main_queue := [example_packet CommandObcSendBeacon 2 []],
                       deploymentmode := True, millis := 20000\<rparr>)) =
      [\<lparr>type = CommandEpsSwitchStatus, nodeorig = 1, nodedest = 2,
         chanout = RFM23_CHANNEL, data = [1]\<rparr>] \<and>
   pdu_queue (ensure_rpi_is_powered example_values env_low
           (boot_state\<lparr>main_queue := [example_packet CommandObcSendBeacon 2 []],
                       deploymentmode := True, millis := 20000\<rparr>)) =
      [\<lparr>type = CommandEpsSwitchStatus, nodeorig = 1, nodedest = 2,
         chanout = RFM23_CHANNEL, data = [1]\<rparr>]"
proof -
  let ?s = "boot_state\<lparr>main_queue := [example_packet CommandObcSendBeacon 2 []],
                       deploymentmode := True, millis := 20000\<rparr>"
  let ?P = "example_packet CommandObcSendBeacon 2 []"
  note t = pdu_refresh_claims_ground_origin [of example_values ?s ?P "[]" env_low]
  have a: "distinct_nodes example_values \<and> main_queue ?s = ?P # [] \<and>
      nodedest ?P = TEENSY_NODE_ID example_values \<and> type ?P = CommandObcSendBeacon"
    by (simp add: distinct_nodes_def example_packet_def example_values_def)
  have b: "deploymentmode ?s \<and> readInterval \<le> deploymentbeacon_elapsed ?s"
    by (simp add: boot_state_def readInterval_def deploymentbeacon_elapsed_def)
  have c: "\<not> UART6_RX env_low \<and> getBusVoltage_V env_low < 7"
    by (simp add: env_low_def)
  from t a have r1: "\<exists>s'. route_packets example_values env_low ?s = Inr s' \<and>
      pdu_queue s' = pdu_queue ?s @
        [?P\<lparr>type := CommandEpsSwitchStatus, nodeorig := GROUND_NODE_ID example_values,
            nodedest := TEENSY_NODE_ID example_values,
            data := [PDU_SW_All example_values]\<rparr>]"
    by blast
  from t b have r2: "pdu_queue (beacon_if_deployed example_values ?s) = pdu_queue ?s @
        [(packet ?s)\<lparr>type := CommandEpsSwitchStatus,
            nodeorig := GROUND_NODE_ID example_values,
            nodedest := TEENSY_NODE_ID example_values,
            data := [PDU_SW_All example_values]\<rparr>]"
    by blast
  from t c have r3: "pdu_queue (ensure_rpi_is_powered example_values env_low ?s) =
      pdu_queue ?s @
        [(packet ?s)\<lparr>type := CommandEpsSwitchStatus,
            nodeorig := GROUND_NODE_ID example_values,
            nodedest := TEENSY_NODE_ID example_values,
            data := [PDU_SW_All example_values]\<rparr>]"
    by blast
  from r1 r2 r3 show ?thesis
    by (simp add: boot_state_def example_packet_def example_values_def)
qed

section \<open>Shutting the companion computer down\<close>

lemma empty_queue_Nil: "empty_queue q = []"
  by (induction q) simp_all

lemma shut_down_pi_eq:
  "shut_down_pi e s =
     s\<lparr>rpi_packet := (rpi_packet s)\<lparr>type := CommandObcHalt\<rparr>,
       rpi_queue := [],
       thread_list := fst (kill_thread e RPI_CHANNEL (thread_list s)),
       kill_channel := True,
       RPI_ENABLE := False,
       millis := millis s + 20000,
       trace := trace s @ [Serial2_write ((rpi_packet s)\<lparr>type := CommandObcHalt\<rparr>),
                           Delay 20000, DigitalWrite_RPI_ENABLE False]\<rparr>"
  by (simp add: shut_down_pi_def send_to_pi_def threads_delay_def digitalWrite_RPI_ENABLE_def
      empty_queue_Nil Let_def)

lemma handle_queue_shutdown:
  assumes "rpi_queue s = P # rest"
    and "type P = CommandEpsSwitchName"
    and "2 \<le> length (data P)"
    and "data P ! 0 = PDU_SW_RPI K"
    and "data P ! 1 = 0"
  shows "handle_queue K e s = Inr (shut_down_pi e (s\<lparr>rpi_packet := P, rpi_queue := rest\<rparr>))"
proof -
  from assms(3) have "0 < length (data P)" and "Suc 0 < length (data P)"
    by arith+
  with assms show ?thesis
    by (simp add: handle_queue_def PullQueue_def data_at_def Let_def)
qed

text \<open>A switch command for the companion computer with a non-zero argument is dropped.\<close>

lemma handle_queue_ignores_nonzero:
  assumes "rpi_queue s = P # rest"
    and "type P = CommandEpsSwitchName"
    and "2 \<le> length (data P)"
    and "data P ! 0 = PDU_SW_RPI K"
    and "data P ! 1 \<noteq> 0"
  shows "handle_queue K e s = Inr (s\<lparr>rpi_packet := P, rpi_queue := rest\<rparr>)"
proof -
  from assms(3) have "0 < length (data P)" and "Suc 0 < length (data P)"
    by arith+
  with assms show ?thesis
    by (simp add: handle_queue_def PullQueue_def data_at_def Let_def)
qed

text \<open>
  Claim C2, amended. When the companion-computer channel pulls from its queue a switch
  command that targets the companion computer, the argument byte \<open>data[1]\<close> decides.
  With \<open>data[1] = 0\<close> the channel shuts the companion computer down: it transmits the
  packet retyped to a halt command, waits 20000 ms, drives the enable pin LOW (in this
  order), and leaves its queue empty whatever the queue held; it also asks for its thread
  to be killed and sets its kill flag. With any other argument byte, 1 included, the
  command is pulled and nothing else happens: nothing is transmitted, the enable pin and
  the kill flag keep their values, and the packets behind the command stay queued.
\<close>

theorem shutdown_on_argument_zero:
  assumes "rpi_queue s = P # rest"
    and "type P = CommandEpsSwitchName"
    and "2 \<le> length (data P)"
    and "data P ! 0 = PDU_SW_RPI K"
  shows "(data P ! 1 = 0 \<longrightarrow>
      handle_queue K e s =
        Inr (s\<lparr>rpi_packet := P\<lparr>type := CommandObcHalt\<rparr>,
               rpi_queue := [],
               thread_list := fst (kill_thread e RPI_CHANNEL (thread_list s)),
               kill_channel := True,
               RPI_ENABLE := False,
               millis := millis s + 20000,
               trace := trace s @ [Serial2_write (P\<lparr>type := CommandObcHalt\<rparr>),
                                   Delay 20000, DigitalWrite_RPI_ENABLE False]\<rparr>)) \<and>
    (data P ! 1 \<noteq> 0 \<longrightarrow>
      handle_queue K e s = Inr (s\<lparr>rpi_packet := P, rpi_queue := rest\<rparr>))"
proof (intro conjI impI)
  assume "data P ! 1 = 0"
  from handle_queue_shutdown [OF assms this, of e]
  show "handle_queue K e s =
        Inr (s\<lparr>rpi_packet := P\<lparr>type := CommandObcHalt\<rparr>,
               rpi_queue := [],
               thread_list := fst (kill_thread e RPI_CHANNEL (thread_list s)),
               kill_channel := True,
               RPI_ENABLE := False,
               millis := millis s + 20000,
               trace := trace s @ [Serial2_write (P\<lparr>type := CommandObcHalt\<rparr>),
                                   Delay 20000, DigitalWrite_RPI_ENABLE False]\<rparr>)"
    by (simp add: shut_down_pi_eq)
next
  assume "data P ! 1 \<noteq> 0"
  from handle_queue_ignores_nonzero [OF assms this, of e]
  show "handle_queue K e s = Inr (s\<lparr>rpi_packet := P, rpi_queue := rest\<rparr>)" .
qed

theorem shutdown_on_argument_zero_witness:
  "handle_queue example_values env_charged
     (pi_running\<lparr>rpi_queue := example_packet CommandEpsSwitchName 2 [16, 0] # three_packets\<rparr>) =
   Inr (pi_running
     \<lparr>rpi_packet := example_packet CommandObcHalt 2 [16, 0],
      rpi_queue := [],
      thread_list := [(1, RFM23_CHANNEL), (2, PDU_CHANNEL)],
      kill_channel := True,
      RPI_ENABLE := False,
      millis := 20000,
      trace := [Serial2_write (example_packet CommandObcHalt 2 [16, 0]),
                Delay 20000, DigitalWrite_RPI_ENABLE False]\<rparr>) \<and>
   handle_queue example_values env_charged
     (pi_running\<lparr>rpi_queue := [example_packet CommandEpsSwitchName 3 [16, 1, 0]]\<rparr>) =
   Inr (pi_running\<lparr>rpi_packet := example_packet CommandEpsSwitchName 3 [16, 1, 0]\<rparr>)"
proof -
  let ?P = "example_packet CommandEpsSwitchName 2 [16, 0]"
  let ?Q = "example_packet CommandEpsSwitchName 3 [16, 1, 0]"
  have h1: "rpi_queue (pi_running\<lparr>rpi_queue := ?P # three_packets\<rparr>) = ?P # three_packets"
    by simp
  have h2: "type ?P = CommandEpsSwitchName"
    by (simp add: example_packet_def)
  have h3: "2 \<le> length (data ?P)"
    by (simp add: example_packet_def)
  have h4: "data ?P ! 0 = PDU_SW_RPI example_values"
    by (simp add: example_packet_def example_values_def)
  have h5: "data ?P ! 1 = 0"
    by (simp add: example_packet_def)
  have g1: "rpi_queue (pi_running\<lparr>rpi_queue := [?Q]\<rparr>) = ?Q # []"
    by simp
  have g2: "type ?Q = CommandEpsSwitchName"
    by (simp add: example_packet_def)
  have g3: "2 \<le> length (data ?Q)"
    by (simp add: example_packet_def)
  have g4: "data ?Q ! 0 = PDU_SW_RPI example_values"
    by (simp add: example_packet_def example_values_def)
  have g5: "data ?Q ! 1 \<noteq> 0"
    by (simp add: example_packet_def)
  from shutdown_on_argument_zero [OF h1 h2 h3 h4, of env_charged] h5
  have r1: "handle_queue example_values env_charged (pi_running\<lparr>rpi_queue := ?P # three_packets\<rparr>) =
      Inr (pi_running\<lparr>rpi_queue := ?P # three_packets\<rparr>
        \<lparr>rpi_packet := ?P\<lparr>type := CommandObcHalt\<rparr>,
         rpi_queue := [],
         thread_list := fst (kill_thread env_charged RPI_CHANNEL
           (thread_list (pi_running\<lparr>rpi_queue := ?P # three_packets\<rparr>))),
         kill_channel := True,
         RPI_ENABLE := False,
         millis := millis (pi_running\<lparr>rpi_queue := ?P # three_packets\<rparr>) + 20000,
         trace := trace (pi_running\<lparr>rpi_queue := ?P # three_packets\<rparr>) @
           [Serial2_write (?P\<lparr>type := CommandObcHalt\<rparr>),
            Delay 20000, DigitalWrite_RPI_ENABLE False]\<rparr>)"
    by blast
  from shutdown_on_argument_zero [OF g1 g2 g3 g4, of env_charged] g5
  have r2: "handle_queue example_values env_charged (pi_running\<lparr>rpi_queue := [?Q]\<rparr>) =
      Inr (pi_running\<lparr>rpi_queue := [?Q]\<rparr>\<lparr>rpi_packet := ?Q, rpi_queue := []\<rparr>)"
    by blast
  from r1 r2 show ?thesis
    by (simp add: pi_running_def boot_state_def example_packet_def kill_thread_def
        env_charged_def)
qed

text \<open>
  Claim C2 as stated fails. A switch command for the companion computer with argument
  byte 1, addressed to the companion computer's node, is forwarded by the router to the
  channel's queue while the companion computer is present. With three packets waiting
  behind it, the channel pulls the command and transmits nothing, the enable pin stays
  HIGH and the three packets are still queued.
\<close>

theorem argument_one_does_not_shut_down:
  "route_packets example_values (env_charged\<lparr>UART6_RX := True\<rparr>)
     (pi_running\<lparr>main_queue := [example_packet CommandEpsSwitchName 3 [16, 1]]\<rparr>) =
   Inr (pi_running\<lparr>rpi_queue := [example_packet CommandEpsSwitchName 3 [16, 1]],
                    packet := example_packet CommandEpsSwitchName 3 [16, 1]\<rparr>) \<and>
   handle_queue example_values env_charged
     (pi_running\<lparr>rpi_queue := example_packet CommandEpsSwitchName 3 [16, 1] # three_packets\<rparr>) =
   Inr (pi_running\<lparr>rpi_packet := example_packet CommandEpsSwitchName 3 [16, 1],
                    rpi_queue := three_packets\<rparr>) \<and>
   trace (pi_running\<lparr>rpi_packet := example_packet CommandEpsSwitchName 3 [16, 1],
                      rpi_queue := three_packets\<rparr>) = [] \<and>
   RPI_ENABLE (pi_running\<lparr>rpi_packet := example_packet CommandEpsSwitchName 3 [16, 1],
                      rpi_queue := three_packets\<rparr>) \<and>
   length (rpi_queue (pi_running\<lparr>rpi_packet := example_packet CommandEpsSwitchName 3 [16, 1],
                      rpi_queue := three_packets\<rparr>)) = 3"
  by (simp add: route_packets_def ensure_rpi_is_powered_def route_defs
      handle_queue_def data_at_def Let_def example_packet_def
      example_values_def env_charged_def pi_running_def boot_state_def three_packets_def)

section \<open>The kill flag of the companion-computer channel\<close>

text \<open>Nothing in the channel clears the kill flag.\<close>

lemma handle_queue_keeps_kill_channel:
  assumes "handle_queue K e s = Inr s1" and "kill_channel s"
  shows "kill_channel s1"
  using assms
  by (auto simp: handle_queue_def PullQueue_def Let_def shut_down_pi_eq send_to_pi_def
      split: list.splits TypeId.splits sum.splits if_splits)

lemma rpi_loop_body_keeps_kill_channel:
  assumes "rpi_loop_body K e s = Inr s1" and "kill_channel s"
  shows "kill_channel s1"
  using assms handle_queue_keeps_kill_channel [of K e s]
  by (auto simp: rpi_loop_body_def threads_delay_def receive_from_pi_def split: sum.splits)

text \<open>Whenever the channel's loop returns a state, the kill flag is set in it.\<close>

lemma rpi_loop_returns_killed:
  assumes "rpi_loop K e s = Some r"
  shows "case r of Inl f \<Rightarrow> True | Inr s' \<Rightarrow> kill_channel s'"
proof (rule rpi_loop.raw_induct
    [where P = "\<lambda>K e s r. case r of Inl f \<Rightarrow> True | Inr s' \<Rightarrow> kill_channel s'"
      and K = K and e = e and s = s and y = r],
    goal_cases)
  case (1 f K e s r)
  show ?case
  proof (cases r)
    case (Inl x)
    then show ?thesis by simp
  next
    case (Inr s')
    show ?thesis
    proof (cases "rpi_loop_body K e s")
      case (Inl x)
      with 1(2) Inr show ?thesis by simp
    next
      case body: (Inr s1)
      show ?thesis
      proof (cases "kill_channel s1")
        case True
        with 1(2) Inr body show ?thesis by simp
      next
        case False
        with 1(2) body have "f K e s1 = Some r" by simp
        from 1(1) [OF this] show ?thesis .
      qed
    qed
  qed
next
  case 2
  show "rpi_loop K e s = Some r" by (rule assms)
qed

text \<open>
  Claim C8, amended. The channel tests its kill flag once per iteration, after it has
  handled its queue, polled its transport and slept 100 ms. When the flag is set at that
  point the loop returns at once, so no later iteration handles a packet; when the flag
  is already set as an iteration begins, that iteration still runs in full before the
  loop returns; and the loop never returns with the flag clear.
\<close>

theorem kill_flag_is_tested_after_each_iteration:
  "(rpi_loop_body K e s = Inr s1 \<and> kill_channel s1 \<longrightarrow> rpi_loop K e s = Some (Inr s1)) \<and>
   (kill_channel s \<longrightarrow> rpi_loop K e s = Some (rpi_loop_body K e s)) \<and>
   (rpi_loop K e s = Some (Inr s') \<longrightarrow> kill_channel s')"
proof (intro conjI impI)
  assume "rpi_loop_body K e s = Inr s1 \<and> kill_channel s1"
  then show "rpi_loop K e s = Some (Inr s1)"
    by (subst rpi_loop.simps) simp
next
  assume k: "kill_channel s"
  show "rpi_loop K e s = Some (rpi_loop_body K e s)"
  proof (cases "rpi_loop_body K e s")
    case (Inl f)
    then show ?thesis by (subst rpi_loop.simps) simp
  next
    case (Inr s2)
    from Inr k have "kill_channel s2"
      by (rule rpi_loop_body_keeps_kill_channel)
    with Inr show ?thesis by (subst rpi_loop.simps) simp
  qed
next
  assume "rpi_loop K e s = Some (Inr s')"
  from rpi_loop_returns_killed [OF this] show "kill_channel s'"
    by simp
qed

theorem kill_flag_is_tested_after_each_iteration_witness:
  "kill_channel (pi_running\<lparr>kill_channel := True\<rparr>) \<and>
   rpi_loop example_values env_charged (pi_running\<lparr>kill_channel := True\<rparr>) =
     Some (Inr (pi_running\<lparr>kill_channel := True, millis := 100, trace := [Delay 100]\<rparr>)) \<and>
   kill_channel (pi_running\<lparr>kill_channel := True, millis := 100, trace := [Delay 100]\<rparr>)"
proof -
  let ?s = "pi_running\<lparr>kill_channel := True\<rparr>"
  let ?s1 = "pi_running\<lparr>kill_channel := True, millis := 100, trace := [Delay 100]\<rparr>"
  note t = kill_flag_is_tested_after_each_iteration
    [of example_values env_charged ?s ?s1 ?s1]
  have body: "rpi_loop_body example_values env_charged ?s = Inr ?s1"
    by (simp add: rpi_loop_body_def handle_queue_def PullQueue_def receive_from_pi_def
        threads_delay_def pi_running_def boot_state_def)
  have k: "kill_channel ?s" and k1: "kill_channel ?s1"
    by simp_all
  from t body k1 have r1: "rpi_loop example_values env_charged ?s = Some (Inr ?s1)"
    by blast
  from t k have r2: "rpi_loop example_values env_charged ?s =
      Some (rpi_loop_body example_values env_charged ?s)"
    by blast
  from t r1 have r3: "kill_channel ?s1"
    by blast
  from k r2 r3 body show ?thesis
    by simp
qed

text \<open>
  Claim C8 as stated fails: started with the kill flag set (it is never cleared, so this
  is the state of a channel restarted after a shutdown) and one packet queued, the
  channel still pulls and transmits that packet before it returns.
\<close>

theorem packet_is_handled_with_kill_flag_set:
  "kill_channel (pi_running\<lparr>kill_channel := True,
                            rpi_queue := [example_packet CommandObcPing 3 []]\<rparr>) \<and>
   rpi_loop example_values env_charged
     (pi_running\<lparr>kill_channel := True, rpi_queue := [example_packet CommandObcPing 3 []]\<rparr>) =
   Some (Inr (pi_running
     \<lparr>kill_channel := True,
      rpi_packet := example_packet CommandObcPing 3 [],
      millis := 100,
      trace := [Serial2_write (example_packet CommandObcPing 3 []), Delay 100]\<rparr>))"
  by (subst rpi_loop.simps)
     (simp add: rpi_loop_body_def handle_queue_def PullQueue_def Let_def send_to_pi_def
      receive_from_pi_def threads_delay_def example_packet_def pi_running_def boot_state_def)

text \<open>
  Claim C10. \<open>shut_down_pi\<close> sets the kill flag, drives the enable pin LOW and empties
  the queue for every environment, in particular when the request to kill the thread
  fails; a refused kill differs from an accepted one only in the registry. The loop
  iteration that pulls the shutdown command therefore returns from the loop at its flag
  test, 100 ms after the shutdown.
\<close>

theorem shutdown_survives_failed_kill:
  "kill_channel (shut_down_pi e s) \<and>
   \<not> RPI_ENABLE (shut_down_pi e s) \<and>
   rpi_queue (shut_down_pi e s) = [] \<and>
   shut_down_pi (e\<lparr>kill_accepted := False\<rparr>) s =
     (shut_down_pi (e\<lparr>kill_accepted := True\<rparr>) s)\<lparr>thread_list := thread_list s\<rparr> \<and>
   (rpi_queue s = P # rest \<and> type P = CommandEpsSwitchName \<and> 2 \<le> length (data P) \<and>
    data P ! 0 = PDU_SW_RPI K \<and> data P ! 1 = 0 \<longrightarrow>
      rpi_loop K e s =
        Some (Inr (threads_delay 100 (shut_down_pi e (s\<lparr>rpi_packet := P, rpi_queue := rest\<rparr>)))))"
proof (intro conjI impI)
  show "shut_down_pi (e\<lparr>kill_accepted := False\<rparr>) s =
     (shut_down_pi (e\<lparr>kill_accepted := True\<rparr>) s)\<lparr>thread_list := thread_list s\<rparr>"
    by (simp add: shut_down_pi_eq kill_thread_def)
next
  assume a: "rpi_queue s = P # rest \<and> type P = CommandEpsSwitchName \<and> 2 \<le> length (data P) \<and>
    data P ! 0 = PDU_SW_RPI K \<and> data P ! 1 = 0"
  then have "handle_queue K e s = Inr (shut_down_pi e (s\<lparr>rpi_packet := P, rpi_queue := rest\<rparr>))"
    by (intro handle_queue_shutdown) simp_all
  then show "rpi_loop K e s =
        Some (Inr (threads_delay 100 (shut_down_pi e (s\<lparr>rpi_packet := P, rpi_queue := rest\<rparr>))))"
    by (subst rpi_loop.simps)
       (simp add: rpi_loop_body_def receive_from_pi_def threads_delay_def shut_down_pi_eq)
qed (simp_all add: shut_down_pi_eq)


theorem shutdown_survives_failed_kill_witness:
  "rpi_loop example_values env_low
     (pi_running\<lparr>rpi_queue := example_packet CommandEpsSwitchName 2 [16, 0] # three_packets\<rparr>) =
   Some (Inr (pi_running
     \<lparr>rpi_packet := example_packet CommandObcHalt 2 [16, 0],
      rpi_queue := [],
      kill_channel := True,
      RPI_ENABLE := False,
      millis := 20100,
      trace := [Serial2_write (example_packet CommandObcHalt 2 [16, 0]),
                Delay 20000, DigitalWrite_RPI_ENABLE False, Delay 100]\<rparr>))"
proof -
  let ?P = "example_packet CommandEpsSwitchName 2 [16, 0]"
  let ?s = "pi_running\<lparr>rpi_queue := ?P # three_packets\<rparr>"
  note t = shutdown_survives_failed_kill [of env_low ?s ?P three_packets example_values]
  have h: "rpi_queue ?s = ?P # three_packets \<and> type ?P = CommandEpsSwitchName \<and>
      2 \<le> length (data ?P) \<and> data ?P ! 0 = PDU_SW_RPI example_values \<and> data ?P ! 1 = 0"
    by (simp add: example_packet_def example_values_def)
  from t h have "rpi_loop example_values env_low ?s =
      Some (Inr (threads_delay 100
        (shut_down_pi env_low (?s\<lparr>rpi_packet := ?P, rpi_queue := three_packets\<rparr>))))"
    by blast
  then show ?thesis
    by (simp add: shut_down_pi_eq threads_delay_def kill_thread_def env_low_def
        pi_running_def boot_state_def example_packet_def)
qed

section \<open>Powering the companion computer\<close>

lemma enable_rpi_eq:
  "enable_rpi e s =
     s\<lparr>thread_list := thread_list s @
         (if addThread_result e = - 1 then [] else [(addThread_result e, RPI_CHANNEL)]),
       RPI_ENABLE := True,
       trace := trace s @ [DigitalWrite_RPI_ENABLE True,
                           AddThread_rpi_channel (addThread_result e)]\<rparr>"
  by (simp add: enable_rpi_def digitalWrite_RPI_ENABLE_def Let_def)

text \<open>
  Claim C4, amended. One call of \<open>ensure_rpi_is_powered\<close> while the presence pin reads
  LOW and the bus voltage is at least 7.0 V drives the enable pin HIGH, asks the scheduler
  for a channel thread, appends exactly one companion-computer entry to the registry when
  the thread was created (none when \<open>addThread\<close> returned -1), and then sleeps 5000 ms.
  Nothing in the function looks at the registry or at the enable pin first, so the
  statement holds per call.
\<close>

theorem ensure_powered_registers_once_per_call:
  assumes "\<not> UART6_RX e" and "7 \<le> getBusVoltage_V e"
  shows "ensure_rpi_is_powered K e s =
     s\<lparr>thread_list := thread_list s @
         (if addThread_result e = - 1 then [] else [(addThread_result e, RPI_CHANNEL)]),
       RPI_ENABLE := True,
       millis := millis s + 5000,
       trace := trace s @ [DigitalWrite_RPI_ENABLE True,
                           AddThread_rpi_channel (addThread_result e), Delay 5000]\<rparr>"
  using assms
  by (simp add: ensure_rpi_is_powered_def enable_rpi_eq threads_delay_def Let_def)

theorem ensure_powered_registers_once_per_call_witness:
  "ensure_rpi_is_powered example_values env_charged boot_state =
     boot_state\<lparr>thread_list := [(1, RFM23_CHANNEL), (2, PDU_CHANNEL), (3, RPI_CHANNEL)],
       RPI_ENABLE := True,
       millis := 5000,
       trace := [DigitalWrite_RPI_ENABLE True, AddThread_rpi_channel 3, Delay 5000]\<rparr>"
proof -
  have h1: "\<not> UART6_RX env_charged"
    by (simp add: env_charged_def)
  have h2: "7 \<le> getBusVoltage_V env_charged"
    by (simp add: env_charged_def)
  show ?thesis
    using ensure_powered_registers_once_per_call [OF h1 h2, of example_values boot_state]
    by (simp add: env_charged_def boot_state_def)
qed

text \<open>
  Claim C4 as stated fails: two calls, both made while the presence pin still reads LOW
  and the bus is at 8 V, write the enable pin twice, start two threads and leave two
  companion-computer entries in the registry.
\<close>

theorem repeated_ensure_powered_registers_twice:
  "\<not> UART6_RX env_charged \<and> 7 \<le> getBusVoltage_V env_charged \<and>
   \<not> UART6_RX (env_charged\<lparr>addThread_result := 4\<rparr>) \<and>
   7 \<le> getBusVoltage_V (env_charged\<lparr>addThread_result := 4\<rparr>) \<and>
   thread_list (ensure_rpi_is_powered example_values (env_charged\<lparr>addThread_result := 4\<rparr>)
                 (ensure_rpi_is_powered example_values env_charged boot_state)) =
     [(1, RFM23_CHANNEL), (2, PDU_CHANNEL), (3, RPI_CHANNEL), (4, RPI_CHANNEL)] \<and>
   count_list (map snd (thread_list
       (ensure_rpi_is_powered example_values (env_charged\<lparr>addThread_result := 4\<rparr>)
         (ensure_rpi_is_powered example_values env_charged boot_state)))) RPI_CHANNEL = 2 \<and>
   trace (ensure_rpi_is_powered example_values (env_charged\<lparr>addThread_result := 4\<rparr>)
           (ensure_rpi_is_powered example_values env_charged boot_state)) =
     [DigitalWrite_RPI_ENABLE True, AddThread_rpi_channel 3, Delay 5000,
      DigitalWrite_RPI_ENABLE True, AddThread_rpi_channel 4, Delay 5000]"
  by (simp add: ensure_rpi_is_powered_def enable_rpi_eq threads_delay_def Let_def
      env_charged_def boot_state_def)

section \<open>Deployment beacons\<close>

text \<open>
  Claim C6. A deployment-beacon check made less than \<open>readInterval\<close> after the timer
  was last reset changes nothing. In deployment mode a check made once the interval has
  elapsed polls the devices once, queues one power-unit refresh and resets the timer to
  zero; a later check in any state \<open>s2\<close> with the same timer, reached \<open>d\<close> ms after
  that emission with \<open>d\<close> below the interval, again changes nothing.
\<close>

theorem deployment_beacon_once_per_interval:
  "(deploymentbeacon_elapsed s < readInterval \<longrightarrow> beacon_if_deployed K s = s) \<and>
   (deploymentmode s \<and> readInterval \<le> deploymentbeacon_elapsed s \<longrightarrow>
      trace (beacon_if_deployed K s) = trace s @ [BeaconDevices] \<and>
      length (pdu_queue (beacon_if_deployed K s)) = Suc (length (pdu_queue s)) \<and>
      deploymentbeacon_elapsed (beacon_if_deployed K s) = 0 \<and>
      (deploymentbeacon s2 = deploymentbeacon (beacon_if_deployed K s) \<and>
       millis s2 = millis (beacon_if_deployed K s) + d \<and> d < readInterval \<longrightarrow>
         beacon_if_deployed K s2 = s2))"
  by (auto simp: beacon_if_deployed_def deploymentbeacon_elapsed_def deploymentbeacon_reset_def
      update_pdu_switches_def route_defs beacon_artemis_devices_def Let_def)


theorem deployment_beacon_once_per_interval_witness:
  "beacon_if_deployed example_values (boot_state\<lparr>deploymentmode := True, millis := 19999\<rparr>) =
     boot_state\<lparr>deploymentmode := True, millis := 19999\<rparr> \<and>
   trace (beacon_if_deployed example_values
           (boot_state\<lparr>deploymentmode := True, millis := 20000\<rparr>)) = [BeaconDevices] \<and>
   length (pdu_queue (beacon_if_deployed example_values
           (boot_state\<lparr>deploymentmode := True, millis := 20000\<rparr>))) = 1 \<and>
   deploymentbeacon_elapsed (beacon_if_deployed example_values
           (boot_state\<lparr>deploymentmode := True, millis := 20000\<rparr>)) = 0 \<and>
   beacon_if_deployed example_values
     ((beacon_if_deployed example_values
         (boot_state\<lparr>deploymentmode := True, millis := 20000\<rparr>))\<lparr>millis := 39999\<rparr>) =
     (beacon_if_deployed example_values
         (boot_state\<lparr>deploymentmode := True, millis := 20000\<rparr>))\<lparr>millis := 39999\<rparr>"
proof -
  let ?a = "boot_state\<lparr>deploymentmode := True, millis := 19999\<rparr>"
  let ?b = "boot_state\<lparr>deploymentmode := True, millis := 20000\<rparr>"
  let ?b1 = "beacon_if_deployed example_values ?b"
  note ta = deployment_beacon_once_per_interval [of ?a example_values ?a 0]
  note tb = deployment_beacon_once_per_interval
    [of ?b example_values "?b1\<lparr>millis := 39999\<rparr>" 19999]
  have ha: "deploymentbeacon_elapsed ?a < readInterval"
    by (simp add: deploymentbeacon_elapsed_def readInterval_def boot_state_def)
  have hb: "deploymentmode ?b \<and> readInterval \<le> deploymentbeacon_elapsed ?b"
    by (simp add: deploymentbeacon_elapsed_def readInterval_def boot_state_def)
  have b1: "millis ?b1 = 20000"
    by (simp add: beacon_if_deployed_def deploymentbeacon_elapsed_def readInterval_def
        deploymentbeacon_reset_def update_pdu_switches_def route_defs
        beacon_artemis_devices_def Let_def boot_state_def)
  have hc: "deploymentbeacon (?b1\<lparr>millis := 39999\<rparr>) = deploymentbeacon ?b1 \<and>
      millis (?b1\<lparr>millis := 39999\<rparr>) = millis ?b1 + 19999 \<and>
      (19999 :: 32 word) < readInterval"
    by (simp add: b1 readInterval_def)
  from ta ha have r1: "beacon_if_deployed example_values ?a = ?a"
    by blast
  from tb hb hc have r2: "trace ?b1 = trace ?b @ [BeaconDevices] \<and>
      length (pdu_queue ?b1) = Suc (length (pdu_queue ?b)) \<and>
      deploymentbeacon_elapsed ?b1 = 0 \<and>
      beacon_if_deployed example_values (?b1\<lparr>millis := 39999\<rparr>) = ?b1\<lparr>millis := 39999\<rparr>"
    by blast
  from r1 r2 show ?thesis
    by (simp add: boot_state_def)
qed

section \<open>One packet per iteration of the main loop\<close>

lemmas handler_defs =
  send_pong_reply_def report_rpi_enabled_def update_pdu_switches_def enable_rpi_def
  ensure_rpi_is_powered_def beacon_artemis_devices_def threads_delay_def
  digitalWrite_RPI_ENABLE_def digitalRead_RPI_ENABLE_def

lemma route_packets_Nil:
  assumes "main_queue s = []"
  shows "route_packets K e s = Inr s"
  using assms by (simp add: route_packets_def PullQueue_def)

text \<open>
  The router's work on the head of the central queue does not depend on the packets
  behind it, and it removes exactly the head.
\<close>

lemma route_packets_rest:
  assumes "main_queue s = p # rest"
  shows "route_packets K e s =
    map_sum id (main_queue_update (\<lambda>_. rest)) (route_packets K e (s\<lparr>main_queue := [p]\<rparr>))"
  using assms
  by (simp add: route_packets_def PullQueue_def
      data_at_def route_defs handler_defs Let_def
      split: TypeId.split Channel_ID.split)


lemma route_packets_pops:
  "map_sum id main_queue (route_packets K e s) =
   map_sum id (\<lambda>_. tl (main_queue s)) (route_packets K e s)"
  by (simp add: route_packets_def PullQueue_def
      data_at_def route_defs handler_defs Let_def
      split: list.split TypeId.split Channel_ID.split)

lemma route_packets_no_fault:
  assumes "main_queue s = [] \<or> 3 \<le> length (data (hd (main_queue s)))"
  shows "\<exists>s'. route_packets K e s = Inr s'"
proof (cases "main_queue s")
  case Nil
  then show ?thesis by (simp add: route_packets_Nil)
next
  case (Cons p rest)
  with assms have "3 \<le> length (data p)"
    by simp
  then have "0 < length (data p)" and "Suc 0 < length (data p)" and "2 < length (data p)"
    by arith+
  with Cons show ?thesis
    by (simp add: route_packets_def PullQueue_def data_at_def Let_def split: TypeId.split)
qed

lemma beacon_if_deployed_main_queue:
  "beacon_if_deployed K (s\<lparr>main_queue := q\<rparr>) = (beacon_if_deployed K s)\<lparr>main_queue := q\<rparr>"
  "main_queue (beacon_if_deployed K s) = main_queue s"
  by (simp_all add: beacon_if_deployed_def deploymentbeacon_elapsed_def
      deploymentbeacon_reset_def route_defs handler_defs Let_def)

lemma main_loop_rest:
  assumes "main_queue s = p # rest"
  shows "main_loop K e s =
    map_sum id (main_queue_update (\<lambda>_. rest)) (main_loop K e (s\<lparr>main_queue := [p]\<rparr>))"
proof -
  have "main_queue (beacon_if_deployed K s) = p # rest"
    using assms by (simp add: beacon_if_deployed_main_queue)
  from route_packets_rest [OF this, of K e] show ?thesis
    by (simp add: main_loop_def beacon_if_deployed_main_queue threads_delay_def
        split: sum.split)
qed

lemma main_loop_pops:
  assumes "main_loop K e s = Inr s'"
  shows "main_queue s' = tl (main_queue s)"
proof -
  from assms obtain s1 where r: "route_packets K e (beacon_if_deployed K s) = Inr s1"
    and s': "s' = threads_delay 100 s1"
    by (auto simp: main_loop_def split: sum.splits)
  from route_packets_pops [of K e "beacon_if_deployed K s"] r
  have "main_queue s1 = tl (main_queue s)"
    by (simp add: beacon_if_deployed_main_queue)
  with s' show ?thesis
    by (simp add: threads_delay_def)
qed

lemma main_loop_no_fault:
  assumes "main_queue s = [] \<or> 3 \<le> length (data (hd (main_queue s)))"
  shows "\<exists>s'. main_loop K e s = Inr s'"
proof -
  from assms have "main_queue (beacon_if_deployed K s) = [] \<or>
      3 \<le> length (data (hd (main_queue (beacon_if_deployed K s))))"
    by (simp add: beacon_if_deployed_main_queue)
  from route_packets_no_fault [OF this, of K e] show ?thesis
    by (auto simp: main_loop_def)
qed

lemma main_loops_pop:
  assumes "main_loops K es s = Inr s'"
  shows "main_queue s' = drop (length es) (main_queue s)"
  using assms
proof (induction es arbitrary: s)
  case Nil
  then show ?case by simp
next
  case (Cons e es)
  from Cons.prems obtain s1 where 1: "main_loop K e s = Inr s1"
    and 2: "main_loops K es s1 = Inr s'"
    by (auto split: sum.splits)
  from Cons.IH [OF 2] main_loop_pops [OF 1] show ?case
    by (simp add: drop_Suc)
qed

lemma main_loops_no_fault:
  assumes "\<forall>p \<in> set (main_queue s). 3 \<le> length (data p)"
  shows "\<exists>s'. main_loops K es s = Inr s'"
  using assms
proof (induction es arbitrary: s)
  case Nil
  then show ?case by simp
next
  case (Cons e es)
  then have "main_queue s = [] \<or> 3 \<le> length (data (hd (main_queue s)))"
    by (cases "main_queue s") simp_all
  from main_loop_no_fault [OF this, of K e] obtain s1 where 1: "main_loop K e s = Inr s1"
    by blast
  from main_loop_pops [OF 1] Cons.prems
  have "\<forall>p \<in> set (main_queue s1). 3 \<le> length (data p)"
    by (cases "main_queue s") simp_all
  from Cons.IH [OF this] 1 show ?case
    by simp
qed

text \<open>
  Claim C7. An iteration of the main loop on an empty central queue leaves it empty. An
  iteration on a queue \<open>p # rest\<close> that returns leaves exactly \<open>rest\<close> queued and has
  the same effect on every other part of the state as it has when \<open>p\<close> is alone in the
  queue, so it dispatches \<open>p\<close> and nothing else. After \<open>n\<close> iterations the first
  \<open>n\<close> packets are gone and the others remain in their order, so the packet handled in
  iteration \<open>k + 1\<close> is the one that arrived in position \<open>k + 1\<close>. The iterations do
  return when every queued packet carries at least three payload bytes (with fewer, a
  switch command can make the router read past the end of the payload).
\<close>

theorem one_packet_per_main_loop_iteration:
  "(main_queue s = [] \<longrightarrow> (\<exists>t. main_loop K e s = Inr t \<and> main_queue t = [])) \<and>
   (main_queue s = p # rest \<and> main_loop K e s = Inr s' \<longrightarrow>
      main_queue s' = rest \<and>
      main_loop K e (s\<lparr>main_queue := [p]\<rparr>) = Inr (s'\<lparr>main_queue := []\<rparr>)) \<and>
   (main_loops K es s = Inr s'' \<longrightarrow> main_queue s'' = drop (length es) (main_queue s)) \<and>
   ((\<forall>q \<in> set (main_queue s). 3 \<le> length (data q)) \<longrightarrow>
      (\<exists>t. main_loops K es s = Inr t))"
proof (intro conjI impI)
  assume a: "main_queue s = []"
  then obtain t where t: "main_loop K e s = Inr t"
    using main_loop_no_fault [of s K e] by blast
  from main_loop_pops [OF t] a have "main_queue t = []"
    by simp
  with t show "\<exists>t. main_loop K e s = Inr t \<and> main_queue t = []"
    by blast
next
  assume a: "main_queue s = p # rest \<and> main_loop K e s = Inr s'"
  then have q: "main_queue s = p # rest" and r: "main_loop K e s = Inr s'"
    by simp_all
  from main_loop_pops [OF r] q show "main_queue s' = rest"
    by simp
  from main_loop_rest [OF q, of K e] r
  obtain t where t: "main_loop K e (s\<lparr>main_queue := [p]\<rparr>) = Inr t"
    and s': "s' = t\<lparr>main_queue := rest\<rparr>"
    by (cases "main_loop K e (s\<lparr>main_queue := [p]\<rparr>)") auto
  from main_loop_pops [OF t] have "main_queue t = []"
    by simp
  then have "t = t\<lparr>main_queue := []\<rparr>"
    by (cases t) simp
  with t s' show "main_loop K e (s\<lparr>main_queue := [p]\<rparr>) = Inr (s'\<lparr>main_queue := []\<rparr>)"
    by simp
next
  assume "main_loops K es s = Inr s''"
  then show "main_queue s'' = drop (length es) (main_queue s)"
    by (rule main_loops_pop)
next
  assume "\<forall>q \<in> set (main_queue s). 3 \<le> length (data q)"
  then show "\<exists>t. main_loops K es s = Inr t"
    by (rule main_loops_no_fault)
qed


theorem one_packet_per_main_loop_iteration_witness:
  "(\<exists>t. main_loop example_values env_charged boot_state = Inr t \<and> main_queue t = []) \<and>
   main_loop example_values env_charged
     (boot_state\<lparr>main_queue := [example_packet CommandObcPing 2 [7, 7, 7],
                                 example_packet CommandEpsCommunicate 2 [1, 2, 3]]\<rparr>) =
     Inr (boot_state
       \<lparr>main_queue := [example_packet CommandEpsCommunicate 2 [1, 2, 3]],
        rfm23_queue := [example_packet DataObcPong 1 [0x50, 0x6F, 0x6E, 0x67]\<lparr>nodeorig := 2\<rparr>],
        packet := example_packet DataObcPong 1 [0x50, 0x6F, 0x6E, 0x67]\<lparr>nodeorig := 2\<rparr>,
        millis := 100, trace := [Delay 100]\<rparr>) \<and>
   main_loop example_values env_charged
     (boot_state\<lparr>main_queue := [example_packet CommandObcPing 2 [7, 7, 7]]\<rparr>) =
     Inr (boot_state
       \<lparr>rfm23_queue := [example_packet DataObcPong 1 [0x50, 0x6F, 0x6E, 0x67]\<lparr>nodeorig := 2\<rparr>],
        packet := example_packet DataObcPong 1 [0x50, 0x6F, 0x6E, 0x67]\<lparr>nodeorig := 2\<rparr>,
        millis := 100, trace := [Delay 100]\<rparr>) \<and>
   (\<exists>t. main_loops example_values [env_charged, env_charged]
          (boot_state\<lparr>main_queue := [example_packet CommandObcPing 2 [7, 7, 7],
                                      example_packet CommandEpsCommunicate 2 [1, 2, 3]]\<rparr>) = Inr t \<and>
        main_queue t = [])"
proof -
  let ?p1 = "example_packet CommandObcPing 2 [7, 7, 7]"
  let ?p2 = "example_packet CommandEpsCommunicate 2 [1, 2, 3]"
  let ?pong = "example_packet DataObcPong 1 [0x50, 0x6F, 0x6E, 0x67]\<lparr>nodeorig := 2\<rparr>"
  let ?s = "boot_state\<lparr>main_queue := [?p1, ?p2]\<rparr>"
  let ?s' = "boot_state\<lparr>main_queue := [?p2], rfm23_queue := [?pong], packet := ?pong,
                        millis := 100, trace := [Delay 100]\<rparr>"
  have step: "main_loop example_values env_charged ?s = Inr ?s'"
    by (simp add: main_loop_def beacon_if_deployed_def route_packets_def PullQueue_def
        send_pong_reply_eq threads_delay_def Let_def boot_state_def example_packet_def
        example_values_def)
  have all3: "\<forall>q \<in> set (main_queue ?s). 3 \<le> length (data q)"
    by (simp add: example_packet_def)
  from one_packet_per_main_loop_iteration
    [where s = boot_state and K = example_values and e = env_charged and es = "[]"]
  have r1: "\<exists>t. main_loop example_values env_charged boot_state = Inr t \<and> main_queue t = []"
    by (simp add: boot_state_def)
  note t = one_packet_per_main_loop_iteration
    [where s = ?s and K = example_values and e = env_charged and p = ?p1 and rest = "[?p2]"
       and s' = ?s' and es = "[env_charged, env_charged]"]
  from t step have "main_loop example_values env_charged (?s\<lparr>main_queue := [?p1]\<rparr>) =
      Inr (?s'\<lparr>main_queue := []\<rparr>)"
    by simp
  then have r2: "main_loop example_values env_charged (boot_state\<lparr>main_queue := [?p1]\<rparr>) =
      Inr (boot_state\<lparr>rfm23_queue := [?pong], packet := ?pong,
                        millis := 100, trace := [Delay 100]\<rparr>)"
    by (simp add: boot_state_def)
  from t all3 obtain u where u: "main_loops example_values [env_charged, env_charged] ?s = Inr u"
    by blast
  from one_packet_per_main_loop_iteration
    [where s = ?s and K = example_values and es = "[env_charged, env_charged]" and s'' = u] u
  have "main_queue u = []"
    by simp
  with u have r3: "\<exists>t. main_loops example_values [env_charged, env_charged] ?s = Inr t \<and>
      main_queue t = []"
    by blast
  from r1 step r2 r3 show ?thesis
    by blast
qed

end
